theory Spec2Isabelle
  imports Complex_Main
begin

section \<open>Dynamic values\<close>

text \<open>
  The normaliser reads a document of Go type \<open>any\<close>. The constructors are the dynamic
  types that a decoded JSON document is made of: the nil interface, \<open>bool\<close>,
  \<open>float64\<close>, \<open>string\<close>, \<open>[]any\<close> and \<open>map[string]any\<close>. \<open>VOther\<close> stands for a
  value of any other dynamic type (an \<open>int\<close>, a \<open>[]string\<close>, a struct), named by its
  type. The code never looks inside a boolean, a number or such a value; it only tells
  strings, slices and maps from everything else. Strings are byte sequences, as in Go.
\<close>

datatype any =
    VNil
  | VBool bool
  | VNumber real
  | VString string
  | VSlice "any list"
  | VMap "string \<rightharpoonup> any"
  | VOther string

section \<open>Data model\<close>

text \<open>
  One record for each struct. Field names carry the struct's prefix where several structs
  share a name. A \<open>Position\<close> is a Go \<open>int\<close> that only ever holds a slice index plus
  one, which cannot overflow, so it is a natural number here.
\<close>

record SearchResult =
  Data :: any
  Raw :: string

record OrganicResult =
  org_Position :: nat
  org_Title :: string
  org_Link :: string
  org_URL :: string
  org_Snippet :: string
  org_Domain :: string
  org_Date :: string

record AnswerBox =
  ab_Type :: string
  ab_Title :: string
  ab_Answer :: string
  ab_Snippet :: string
  ab_Source :: string
  ab_Link :: string

record KnowledgeGraph =
  kg_Title :: string
  kg_Type :: string
  kg_Description :: string
  kg_Source :: string
  kg_ImageURL :: string
  kg_Attributes :: "string \<rightharpoonup> string"

record RelatedSearch =
  rs_Query :: string
  rs_Link :: string

record PeopleAlsoAsk =
  paa_Question :: string
  paa_Answer :: string
  paa_Title :: string
  paa_Link :: string
  paa_Source :: string

record NewsResult =
  news_Position :: nat
  news_Title :: string
  news_Link :: string
  news_Source :: string
  news_Date :: string
  news_Snippet :: string
  news_ImageURL :: string
  news_Thumbnail :: string

record ImageResult =
  img_Position :: nat
  img_Title :: string
  img_ImageURL :: string
  img_Thumbnail :: string
  img_Source :: string
  img_SourceURL :: string
  img_Width :: int
  img_Height :: int
  img_IsProduct :: bool

text \<open>
  Element types of the collections that no normaliser fills; none of their fields is read
  or written by the functions below.
\<close>

typedecl VideoResult
typedecl PlaceResult
typedecl ShoppingResult
typedecl ScholarResult

record SearchMetadata =
  Engine :: string
  Query :: string
  Location :: string
  Language :: string
  Country :: string
  TotalResults :: int
  TimeTaken :: real

text \<open>
  A \<open>*SearchResult\<close> is a reference into a store of \<open>SearchResult\<close> objects; the nil
  pointer is \<open>None\<close>.
\<close>

type_synonym ref = nat
type_synonym store = "ref \<Rightarrow> SearchResult"

record NormalizedSearchResult =
  OrganicResults :: "OrganicResult list"
  AnswerBox :: "AnswerBox option"
  KnowledgeGraph :: "KnowledgeGraph option"
  RelatedSearches :: "RelatedSearch list"
  PeopleAlsoAsk :: "PeopleAlsoAsk list"
  NewsResults :: "NewsResult list"
  ImageResults :: "ImageResult list"
  VideoResults :: "VideoResult list"
  PlaceResults :: "PlaceResult list"
  ShoppingResults :: "ShoppingResult list"
  ScholarResults :: "ScholarResult list"
  Suggestions :: "string list"
  SearchMetadata :: SearchMetadata
  RawResult :: "ref option"

record Normalizer =
  engineName :: string

datatype error =
    NilResultOrData
  | UnexpectedDataType any
  | UnsupportedEngine string

section \<open>Field extraction\<close>

text \<open>
  \<open>getString\<close>: the value under \<open>key\<close> when the key is present and holds a string,
  the empty string otherwise.
\<close>

definition getString :: "(string \<rightharpoonup> any) \<Rightarrow> string \<Rightarrow> string" where
  "getString m key =
     (case m key of
        Some val \<Rightarrow> (case val of VString str \<Rightarrow> str | _ \<Rightarrow> '''')
      | None \<Rightarrow> '''')"

text \<open>
  The checked type assertions \<open>data[key].([]any)\<close> and \<open>data[key].(map[string]any)\<close>:
  a missing key reads as the nil interface, for which both assertions fail.
\<close>

definition sliceAt :: "(string \<rightharpoonup> any) \<Rightarrow> string \<Rightarrow> any list option" where
  "sliceAt data key =
     (case data key of
        Some val \<Rightarrow> (case val of VSlice xs \<Rightarrow> Some xs | _ \<Rightarrow> None)
      | None \<Rightarrow> None)"

definition mapAt :: "(string \<rightharpoonup> any) \<Rightarrow> string \<Rightarrow> (string \<rightharpoonup> any) option" where
  "mapAt data key =
     (case data key of
        Some val \<Rightarrow> (case val of VMap m \<Rightarrow> Some m | _ \<Rightarrow> None)
      | None \<Rightarrow> None)"

text \<open>
  The loop shared by every collection:
  \<^verbatim>\<open>for i, item := range xs { if itemMap, ok := item.(map[string]any); ok { out = append(out, mk(i, itemMap)) } }\<close>
  The index \<open>i\<close> advances on every element, also on those that are skipped.
\<close>

fun rangeAppend :: "(nat \<Rightarrow> (string \<rightharpoonup> any) \<Rightarrow> 'a) \<Rightarrow> nat \<Rightarrow> any list \<Rightarrow> 'a list \<Rightarrow> 'a list" where
  "rangeAppend mk i [] out = out"
| "rangeAppend mk i (item # items) out =
     (case item of
        VMap itemMap \<Rightarrow> rangeAppend mk (i + 1) items (out @ [mk i itemMap])
      | _ \<Rightarrow> rangeAppend mk (i + 1) items out)"

section \<open>Serper normalisation\<close>

definition serperOrganicResult :: "nat \<Rightarrow> (string \<rightharpoonup> any) \<Rightarrow> OrganicResult" where
  "serperOrganicResult i itemMap =
     \<lparr> org_Position = i + 1,
       org_Title = getString itemMap ''title'',
       org_Link = getString itemMap ''link'',
       org_URL = getString itemMap ''link'',
       org_Snippet = getString itemMap ''snippet'',
       org_Domain = '''',
       org_Date = getString itemMap ''date'' \<rparr>"

definition serperAnswerBox :: "(string \<rightharpoonup> any) \<Rightarrow> AnswerBox" where
  "serperAnswerBox answerBox =
     \<lparr> ab_Type = getString answerBox ''type'',
       ab_Title = getString answerBox ''title'',
       ab_Answer = getString answerBox ''answer'',
       ab_Snippet = getString answerBox ''snippet'',
       ab_Source = getString answerBox ''source'',
       ab_Link = getString answerBox ''link'' \<rparr>"

definition serperKnowledgeGraph :: "(string \<rightharpoonup> any) \<Rightarrow> KnowledgeGraph" where
  "serperKnowledgeGraph kg =
     \<lparr> kg_Title = getString kg ''title'',
       kg_Type = getString kg ''type'',
       kg_Description = getString kg ''description'',
       kg_Source = '''',
       kg_ImageURL = getString kg ''imageUrl'',
       kg_Attributes = Map.empty \<rparr>"

definition serperRelatedSearch :: "nat \<Rightarrow> (string \<rightharpoonup> any) \<Rightarrow> RelatedSearch" where
  "serperRelatedSearch i itemMap =
     \<lparr> rs_Query = getString itemMap ''query'', rs_Link = '''' \<rparr>"

definition serperPeopleAlsoAsk :: "nat \<Rightarrow> (string \<rightharpoonup> any) \<Rightarrow> PeopleAlsoAsk" where
  "serperPeopleAlsoAsk i itemMap =
     \<lparr> paa_Question = getString itemMap ''question'',
       paa_Answer = getString itemMap ''answer'',
       paa_Title = getString itemMap ''title'',
       paa_Link = getString itemMap ''link'',
       paa_Source = '''' \<rparr>"

text \<open>
  The search-parameters echo: all four fields are assigned from the block, whatever it
  holds.
\<close>

definition echoMetadata :: "(string \<rightharpoonup> any) \<Rightarrow> SearchMetadata \<Rightarrow> SearchMetadata" where
  "echoMetadata searchParams md =
     md\<lparr> Query := getString searchParams ''q'',
         Location := getString searchParams ''location'',
         Language := getString searchParams ''hl'',
         Country := getString searchParams ''gl'' \<rparr>"

definition normalizeSerperSearch :: "(string \<rightharpoonup> any) \<Rightarrow> NormalizedSearchResult \<Rightarrow> NormalizedSearchResult" where
  "normalizeSerperSearch data normalized =
     (let normalized =
            (case sliceAt data ''organic'' of
               Some organic \<Rightarrow> normalized\<lparr>OrganicResults :=
                  rangeAppend serperOrganicResult 0 organic (OrganicResults normalized)\<rparr>
             | None \<Rightarrow> normalized);
          normalized =
            (case mapAt data ''answerBox'' of
               Some answerBox \<Rightarrow> normalized\<lparr>AnswerBox := Some (serperAnswerBox answerBox)\<rparr>
             | None \<Rightarrow> normalized);
          normalized =
            (case mapAt data ''knowledgeGraph'' of
               Some kg \<Rightarrow> normalized\<lparr>KnowledgeGraph := Some (serperKnowledgeGraph kg)\<rparr>
             | None \<Rightarrow> normalized);
          normalized =
            (case sliceAt data ''relatedSearches'' of
               Some related \<Rightarrow> normalized\<lparr>RelatedSearches :=
                  rangeAppend serperRelatedSearch 0 related (RelatedSearches normalized)\<rparr>
             | None \<Rightarrow> normalized);
          normalized =
            (case sliceAt data ''peopleAlsoAsk'' of
               Some paa \<Rightarrow> normalized\<lparr>PeopleAlsoAsk :=
                  rangeAppend serperPeopleAlsoAsk 0 paa (PeopleAlsoAsk normalized)\<rparr>
             | None \<Rightarrow> normalized)
      in (case mapAt data ''searchParameters'' of
            Some searchParams \<Rightarrow> normalized\<lparr>SearchMetadata :=
               echoMetadata searchParams (SearchMetadata normalized)\<rparr>
          | None \<Rightarrow> normalized))"

definition serperNewsResult :: "nat \<Rightarrow> (string \<rightharpoonup> any) \<Rightarrow> NewsResult" where
  "serperNewsResult i itemMap =
     \<lparr> news_Position = i + 1,
       news_Title = getString itemMap ''title'',
       news_Link = getString itemMap ''link'',
       news_Source = getString itemMap ''source'',
       news_Date = getString itemMap ''date'',
       news_Snippet = getString itemMap ''snippet'',
       news_ImageURL = getString itemMap ''imageUrl'',
       news_Thumbnail = getString itemMap ''imageUrl'' \<rparr>"

definition normalizeSerperNews :: "(string \<rightharpoonup> any) \<Rightarrow> NormalizedSearchResult \<Rightarrow> NormalizedSearchResult" where
  "normalizeSerperNews data normalized =
     (case sliceAt data ''news'' of
        Some news \<Rightarrow> normalized\<lparr>NewsResults :=
           rangeAppend serperNewsResult 0 news (NewsResults normalized)\<rparr>
      | None \<Rightarrow> normalized)"

definition serperImageResult :: "nat \<Rightarrow> (string \<rightharpoonup> any) \<Rightarrow> ImageResult" where
  "serperImageResult i itemMap =
     \<lparr> img_Position = i + 1,
       img_Title = getString itemMap ''title'',
       img_ImageURL = getString itemMap ''imageUrl'',
       img_Thumbnail = getString itemMap ''imageUrl'',
       img_Source = getString itemMap ''source'',
       img_SourceURL = getString itemMap ''link'',
       img_Width = 0,
       img_Height = 0,
       img_IsProduct = False \<rparr>"

definition normalizeSerperImages :: "(string \<rightharpoonup> any) \<Rightarrow> NormalizedSearchResult \<Rightarrow> NormalizedSearchResult" where
  "normalizeSerperImages data normalized =
     (case sliceAt data ''images'' of
        Some images \<Rightarrow> normalized\<lparr>ImageResults :=
           rangeAppend serperImageResult 0 images (ImageResults normalized)\<rparr>
      | None \<Rightarrow> normalized)"

section \<open>SerpAPI normalisation\<close>

definition serpAPIOrganicResult :: "nat \<Rightarrow> (string \<rightharpoonup> any) \<Rightarrow> OrganicResult" where
  "serpAPIOrganicResult i itemMap =
     \<lparr> org_Position = i + 1,
       org_Title = getString itemMap ''title'',
       org_Link = getString itemMap ''link'',
       org_URL = getString itemMap ''link'',
       org_Snippet = getString itemMap ''snippet'',
       org_Domain = '''',
       org_Date = getString itemMap ''date'' \<rparr>"

definition serpAPIAnswerBox :: "(string \<rightharpoonup> any) \<Rightarrow> AnswerBox" where
  "serpAPIAnswerBox answerBox =
     \<lparr> ab_Type = getString answerBox ''type'',
       ab_Title = getString answerBox ''title'',
       ab_Answer = getString answerBox ''answer'',
       ab_Snippet = getString answerBox ''snippet'',
       ab_Source = '''',
       ab_Link = getString answerBox ''link'' \<rparr>"

definition serpAPIKnowledgeGraph :: "(string \<rightharpoonup> any) \<Rightarrow> KnowledgeGraph" where
  "serpAPIKnowledgeGraph kg =
     \<lparr> kg_Title = getString kg ''title'',
       kg_Type = getString kg ''type'',
       kg_Description = getString kg ''description'',
       kg_Source = '''',
       kg_ImageURL = getString kg ''image'',
       kg_Attributes = Map.empty \<rparr>"

definition serpAPIRelatedSearch :: "nat \<Rightarrow> (string \<rightharpoonup> any) \<Rightarrow> RelatedSearch" where
  "serpAPIRelatedSearch i itemMap =
     \<lparr> rs_Query = getString itemMap ''query'', rs_Link = getString itemMap ''link'' \<rparr>"

definition serpAPIPeopleAlsoAsk :: "nat \<Rightarrow> (string \<rightharpoonup> any) \<Rightarrow> PeopleAlsoAsk" where
  "serpAPIPeopleAlsoAsk i itemMap =
     \<lparr> paa_Question = getString itemMap ''question'',
       paa_Answer = getString itemMap ''answer'',
       paa_Title = getString itemMap ''title'',
       paa_Link = getString itemMap ''link'',
       paa_Source = getString itemMap ''displayed_link'' \<rparr>"

definition normalizeSerpAPISearch :: "(string \<rightharpoonup> any) \<Rightarrow> NormalizedSearchResult \<Rightarrow> NormalizedSearchResult" where
  "normalizeSerpAPISearch data normalized =
     (let normalized =
            (case sliceAt data ''organic_results'' of
               Some organic \<Rightarrow> normalized\<lparr>OrganicResults :=
                  rangeAppend serpAPIOrganicResult 0 organic (OrganicResults normalized)\<rparr>
             | None \<Rightarrow> normalized);
          normalized =
            (case mapAt data ''answer_box'' of
               Some answerBox \<Rightarrow> normalized\<lparr>AnswerBox := Some (serpAPIAnswerBox answerBox)\<rparr>
             | None \<Rightarrow> normalized);
          normalized =
            (case mapAt data ''knowledge_graph'' of
               Some kg \<Rightarrow> normalized\<lparr>KnowledgeGraph := Some (serpAPIKnowledgeGraph kg)\<rparr>
             | None \<Rightarrow> normalized);
          normalized =
            (case sliceAt data ''related_searches'' of
               Some related \<Rightarrow> normalized\<lparr>RelatedSearches :=
                  rangeAppend serpAPIRelatedSearch 0 related (RelatedSearches normalized)\<rparr>
             | None \<Rightarrow> normalized);
          normalized =
            (case sliceAt data ''related_questions'' of
               Some paa \<Rightarrow> normalized\<lparr>PeopleAlsoAsk :=
                  rangeAppend serpAPIPeopleAlsoAsk 0 paa (PeopleAlsoAsk normalized)\<rparr>
             | None \<Rightarrow> normalized)
      in (case mapAt data ''search_parameters'' of
            Some searchParams \<Rightarrow> normalized\<lparr>SearchMetadata :=
               echoMetadata searchParams (SearchMetadata normalized)\<rparr>
          | None \<Rightarrow> normalized))"

text \<open>
  The news element is appended with an empty thumbnail, which is then overwritten when
  the item holds a string under \<open>thumbnail\<close>.
\<close>

definition serpAPINewsResult :: "nat \<Rightarrow> (string \<rightharpoonup> any) \<Rightarrow> NewsResult" where
  "serpAPINewsResult i itemMap =
     (let appended =
            \<lparr> news_Position = i + 1,
              news_Title = getString itemMap ''title'',
              news_Link = getString itemMap ''link'',
              news_Source = getString itemMap ''source'',
              news_Date = getString itemMap ''date'',
              news_Snippet = getString itemMap ''snippet'',
              news_ImageURL = '''',
              news_Thumbnail = '''' \<rparr>
      in (case itemMap ''thumbnail'' of
            Some (VString thumb) \<Rightarrow> appended\<lparr>news_Thumbnail := thumb\<rparr>
          | _ \<Rightarrow> appended))"

definition normalizeSerpAPINews :: "(string \<rightharpoonup> any) \<Rightarrow> NormalizedSearchResult \<Rightarrow> NormalizedSearchResult" where
  "normalizeSerpAPINews data normalized =
     (case sliceAt data ''news_results'' of
        Some news \<Rightarrow> normalized\<lparr>NewsResults :=
           rangeAppend serpAPINewsResult 0 news (NewsResults normalized)\<rparr>
      | None \<Rightarrow> normalized)"

definition serpAPIImageResult :: "nat \<Rightarrow> (string \<rightharpoonup> any) \<Rightarrow> ImageResult" where
  "serpAPIImageResult i itemMap =
     \<lparr> img_Position = i + 1,
       img_Title = getString itemMap ''title'',
       img_ImageURL = getString itemMap ''original'',
       img_Thumbnail = getString itemMap ''thumbnail'',
       img_Source = getString itemMap ''source'',
       img_SourceURL = getString itemMap ''link'',
       img_Width = 0,
       img_Height = 0,
       img_IsProduct = False \<rparr>"

definition normalizeSerpAPIImages :: "(string \<rightharpoonup> any) \<Rightarrow> NormalizedSearchResult \<Rightarrow> NormalizedSearchResult" where
  "normalizeSerpAPIImages data normalized =
     (case sliceAt data ''images_results'' of
        Some images \<Rightarrow> normalized\<lparr>ImageResults :=
           rangeAppend serpAPIImageResult 0 images (ImageResults normalized)\<rparr>
      | None \<Rightarrow> normalized)"

section \<open>The normaliser\<close>

text \<open>
  \<open>strings.ToLower\<close> is library code. On a string of ASCII bytes it adds
  \<open>'a' - 'A'\<close> to every byte in \<open>'A'..'Z'\<close> and keeps the others; on any other string
  it maps the Unicode tables over the runes, which is taken here as the parameter
  \<open>unicodeLower\<close>. \<open>NewNormalizer\<close> passes the parameter on. The examples below run on
  ASCII names, for which the parameter is not consulted, and pass the identity.
\<close>

definition toLowerByte :: "char \<Rightarrow> char" where
  "toLowerByte c =
     (let n = (of_char c :: nat) in if 65 \<le> n \<and> n \<le> 90 then char_of (n + 32) else c)"

definition ToLower :: "(string \<Rightarrow> string) \<Rightarrow> string \<Rightarrow> string" where
  "ToLower unicodeLower s =
     (if list_all (\<lambda>c. (of_char c :: nat) < 128) s then map toLowerByte s
      else unicodeLower s)"

definition NewNormalizer :: "(string \<Rightarrow> string) \<Rightarrow> string \<Rightarrow> Normalizer" where
  "NewNormalizer unicodeLower name = \<lparr> engineName = ToLower unicodeLower name \<rparr>"

text \<open>
  The struct literal that the three entry points start from: engine and query in the
  metadata, the back-reference to the input, every other field at its zero value.
\<close>

definition newNormalized :: "Normalizer \<Rightarrow> string \<Rightarrow> ref \<Rightarrow> NormalizedSearchResult" where
  "newNormalized n query result =
     \<lparr> OrganicResults = [],
       AnswerBox = None,
       KnowledgeGraph = None,
       RelatedSearches = [],
       PeopleAlsoAsk = [],
       NewsResults = [],
       ImageResults = [],
       VideoResults = [],
       PlaceResults = [],
       ShoppingResults = [],
       ScholarResults = [],
       Suggestions = [],
       SearchMetadata =
         \<lparr> Engine = engineName n, Query = query, Location = '''', Language = '''',
           Country = '''', TotalResults = 0, TimeTaken = 0 \<rparr>,
       RawResult = Some result \<rparr>"

text \<open>
  The entry points take the store and the pointer to the input and return the outcome
  together with the store they leave behind. \<open>Inl\<close> is the error return, whose result
  pointer is nil. The receiver is a normaliser built by \<open>NewNormalizer\<close>, never nil.
\<close>

definition NormalizeSearch ::
  "Normalizer \<Rightarrow> store \<Rightarrow> ref option \<Rightarrow> string \<Rightarrow> (error + NormalizedSearchResult) \<times> store" where
  "NormalizeSearch n st result query =
     (case result of
        None \<Rightarrow> (Inl NilResultOrData, st)
      | Some p \<Rightarrow>
          if Data (st p) = VNil then (Inl NilResultOrData, st)
          else
            (case Data (st p) of
               VMap data \<Rightarrow>
                 (let normalized = newNormalized n query p in
                  if engineName n = ''serper''
                    then (Inr (normalizeSerperSearch data normalized), st)
                  else if engineName n = ''serpapi''
                    then (Inr (normalizeSerpAPISearch data normalized), st)
                  else (Inl (UnsupportedEngine (engineName n)), st))
             | other \<Rightarrow> (Inl (UnexpectedDataType other), st)))"

definition NormalizeNews ::
  "Normalizer \<Rightarrow> store \<Rightarrow> ref option \<Rightarrow> string \<Rightarrow> (error + NormalizedSearchResult) \<times> store" where
  "NormalizeNews n st result query =
     (case result of
        None \<Rightarrow> (Inl NilResultOrData, st)
      | Some p \<Rightarrow>
          if Data (st p) = VNil then (Inl NilResultOrData, st)
          else
            (case Data (st p) of
               VMap data \<Rightarrow>
                 (let normalized = newNormalized n query p in
                  if engineName n = ''serper''
                    then (Inr (normalizeSerperNews data normalized), st)
                  else if engineName n = ''serpapi''
                    then (Inr (normalizeSerpAPINews data normalized), st)
                  else (Inl (UnsupportedEngine (engineName n)), st))
             | other \<Rightarrow> (Inl (UnexpectedDataType other), st)))"

definition NormalizeImages ::
  "Normalizer \<Rightarrow> store \<Rightarrow> ref option \<Rightarrow> string \<Rightarrow> (error + NormalizedSearchResult) \<times> store" where
  "NormalizeImages n st result query =
     (case result of
        None \<Rightarrow> (Inl NilResultOrData, st)
      | Some p \<Rightarrow>
          if Data (st p) = VNil then (Inl NilResultOrData, st)
          else
            (case Data (st p) of
               VMap data \<Rightarrow>
                 (let normalized = newNormalized n query p in
                  if engineName n = ''serper''
                    then (Inr (normalizeSerperImages data normalized), st)
                  else if engineName n = ''serpapi''
                    then (Inr (normalizeSerpAPIImages data normalized), st)
                  else (Inl (UnsupportedEngine (engineName n)), st))
             | other \<Rightarrow> (Inl (UnexpectedDataType other), st)))"

section \<open>The registry\<close>

text \<open>
  An engine is known to the registry through what its methods \<open>GetName\<close>,
  \<open>GetVersion\<close> and \<open>GetSupportedTools\<close> return.
\<close>

record Engine =
  GetName :: string
  GetVersion :: string
  GetSupportedTools :: "string list"

text \<open>
  The registry holds one Go map. \<open>None\<close> is the nil map of a zero-valued registry:
  reading it finds nothing, storing into it panics.
\<close>

record Registry =
  engines :: "(string \<rightharpoonup> Engine) option"

definition NewRegistry :: Registry where
  "NewRegistry = \<lparr> engines = Some Map.empty \<rparr>"

text \<open>\<open>Register\<close> returns the registry after the store, or \<open>None\<close> for the panic.\<close>

definition Register :: "Registry \<Rightarrow> Engine \<Rightarrow> Registry option" where
  "Register r engine =
     (case engines r of
        None \<Rightarrow> None
      | Some m \<Rightarrow> Some (r\<lparr> engines := Some (m(GetName engine \<mapsto> engine)) \<rparr>))"

definition Get :: "Registry \<Rightarrow> string \<Rightarrow> Engine option" where
  "Get r name = (case engines r of None \<Rightarrow> None | Some m \<Rightarrow> m name)"

definition GetAll :: "Registry \<Rightarrow> (string \<rightharpoonup> Engine)" where
  "GetAll r = (case engines r of None \<Rightarrow> Map.empty | Some m \<Rightarrow> m)"

text \<open>
  \<open>List\<close> appends the keys in the order in which \<open>range\<close> visits the map. Go visits
  every key once and leaves the order unspecified, so \<open>List\<close> has one possible return
  value for each enumeration of the keys: \<open>ListReturns r names\<close> says that \<open>names\<close> is
  one of them.
\<close>

definition ListReturns :: "Registry \<Rightarrow> string list \<Rightarrow> bool" where
  "ListReturns r names \<longleftrightarrow> distinct names \<and> set names = dom (GetAll r)"

text \<open>A sequence of \<open>Register\<close> calls, stopping at a panic.\<close>

fun registerSeq :: "Registry \<Rightarrow> Engine list \<Rightarrow> Registry option" where
  "registerSeq r [] = Some r"
| "registerSeq r (e # es) =
     (case Register r e of None \<Rightarrow> None | Some r' \<Rightarrow> registerSeq r' es)"

section \<open>Notions used to state the properties\<close>

definition isMap :: "any \<Rightarrow> bool" where
  "isMap v = (case v of VMap m \<Rightarrow> True | _ \<Rightarrow> False)"


text \<open>
  The elements of a source array that are keyed mappings, each with its index in the
  array, counted from \<open>i\<close>.
\<close>

fun keyedElements :: "nat \<Rightarrow> any list \<Rightarrow> (nat \<times> (string \<rightharpoonup> any)) list" where
  "keyedElements i [] = []"
| "keyedElements i (x # xs) =
     (case x of
        VMap m \<Rightarrow> (i, m) # keyedElements (i + 1) xs
      | _ \<Rightarrow> keyedElements (i + 1) xs)"

text \<open>The 1-based source positions of the elements that are keyed mappings.\<close>

definition sourcePositions :: "any list \<Rightarrow> nat list" where
  "sourcePositions xs = map Suc (filter (\<lambda>i. isMap (xs ! i)) [0..<length xs])"

text \<open>
  The number of keyed mappings in the array under \<open>key\<close>; zero when the key is absent
  or holds something that is not an array.
\<close>

definition keyedCount :: "(string \<rightharpoonup> any) \<Rightarrow> string \<Rightarrow> nat" where
  "keyedCount data key =
     (case sliceAt data key of Some xs \<Rightarrow> length (filter isMap xs) | None \<Rightarrow> 0)"

text \<open>
  The same content under the other provider's keys. \<open>toSerpAPIKeys\<close> moves what a Serper
  document holds under each key that the Serper table reads to the key that the SerpAPI
  table reads for it, the knowledge graph's image included.
\<close>

definition renameImageKey :: "any \<Rightarrow> any" where
  "renameImageKey v =
     (case v of
        VMap kg \<Rightarrow>
          VMap (\<lambda>k. if k = ''image'' then kg ''imageUrl''
                    else if k = ''imageUrl'' then None
                    else kg k)
      | _ \<Rightarrow> v)"

definition toSerpAPIKeys :: "(string \<rightharpoonup> any) \<Rightarrow> (string \<rightharpoonup> any)" where
  "toSerpAPIKeys d =
     (\<lambda>k. if k = ''organic_results'' then d ''organic''
          else if k = ''answer_box'' then d ''answerBox''
          else if k = ''knowledge_graph'' then map_option renameImageKey (d ''knowledgeGraph'')
          else if k = ''related_searches'' then d ''relatedSearches''
          else if k = ''related_questions'' then d ''peopleAlsoAsk''
          else if k = ''search_parameters'' then d ''searchParameters''
          else if k = ''news_results'' then d ''news''
          else if k = ''images_results'' then d ''images''
          else None)"

text \<open>The engine most recently registered under \<open>name\<close> by a sequence of calls.\<close>

definition lastRegistered :: "Engine list \<Rightarrow> string \<Rightarrow> Engine option" where
  "lastRegistered es name = find (\<lambda>e. GetName e = name) (rev es)"

section \<open>The collection loop\<close>

lemma rangeAppend_keyedElements:
  "rangeAppend mk i xs out = out @ map (\<lambda>(j, m). mk j m) (keyedElements i xs)"
  by (induction xs arbitrary: i out) (auto split: any.splits)

lemma length_keyedElements: "length (keyedElements i xs) = length (filter isMap xs)"
  by (induction xs arbitrary: i) (auto simp: isMap_def split: any.splits)

lemma filter_upt_Suc:
  "filter P [0..<Suc n] = (if P 0 then [0] else []) @ map Suc (filter (\<lambda>k. P (Suc k)) [0..<n])"
proof -
  have "[0..<Suc n] = 0 # [Suc 0..<Suc n]"
    by (rule upt_conv_Cons) simp
  then have "[0..<Suc n] = 0 # map Suc [0..<n]"
    by (simp only: map_Suc_upt)
  then show ?thesis
    by (simp add: filter_map comp_def del: upt_Suc)
qed

lemma fst_keyedElements:
  "map fst (keyedElements i xs) = map (\<lambda>k. i + k) (filter (\<lambda>k. isMap (xs ! k)) [0..<length xs])"
proof (induction xs arbitrary: i)
  case Nil
  show ?case by simp
next
  case (Cons x xs)
  show ?case
    using Cons.IH[of "Suc i"]
    by (cases x) (simp_all add: filter_upt_Suc isMap_def del: upt_Suc)
qed

lemma positions_rangeAppend:
  assumes "\<And>j m. pos (mk j m) = j + 1"
  shows "map pos (rangeAppend mk 0 xs []) = sourcePositions xs"
proof -
  have "map pos (rangeAppend mk 0 xs []) = map (\<lambda>(j, m). j + 1) (keyedElements 0 xs)"
    by (simp add: rangeAppend_keyedElements assms split_def)
  also have "\<dots> = map Suc (map fst (keyedElements 0 xs))"
    by (simp add: split_def)
  also have "\<dots> = sourcePositions xs"
    by (simp add: fst_keyedElements sourcePositions_def)
  finally show ?thesis .
qed

lemma sourcePositions_all_maps:
  assumes "list_all isMap xs"
  shows "sourcePositions xs = [1..<Suc (length xs)]"
proof -
  have "filter (\<lambda>i. isMap (xs ! i)) [0..<length xs] = [0..<length xs]"
    using assms by (auto simp: list_all_length filter_id_conv)
  then show ?thesis
    by (simp add: sourcePositions_def map_Suc_upt del: upt_Suc)
qed

lemma length_rangeAppend:
  "length (rangeAppend mk 0 xs []) = length (filter isMap xs)"
  by (simp add: rangeAppend_keyedElements length_keyedElements)

section \<open>What each normaliser writes\<close>

lemma ToLower_serper: "ToLower u ''serper'' = ''serper''"
  by (simp add: ToLower_def toLowerByte_def)

lemma ToLower_serpapi: "ToLower u ''serpapi'' = ''serpapi''"
  by (simp add: ToLower_def toLowerByte_def)

lemma normalizeSerperSearch_OrganicResults:
  "OrganicResults (normalizeSerperSearch data nz) =
     (case sliceAt data ''organic'' of
        Some xs \<Rightarrow> rangeAppend serperOrganicResult 0 xs (OrganicResults nz)
      | None \<Rightarrow> OrganicResults nz)"
  by (simp add: normalizeSerperSearch_def Let_def split: option.splits)

lemma normalizeSerperSearch_AnswerBox:
  "AnswerBox (normalizeSerperSearch data nz) =
     (case mapAt data ''answerBox'' of
        Some m \<Rightarrow> Some (serperAnswerBox m)
      | None \<Rightarrow> AnswerBox nz)"
  by (simp add: normalizeSerperSearch_def Let_def split: option.splits)

lemma normalizeSerperSearch_KnowledgeGraph:
  "KnowledgeGraph (normalizeSerperSearch data nz) =
     (case mapAt data ''knowledgeGraph'' of
        Some m \<Rightarrow> Some (serperKnowledgeGraph m)
      | None \<Rightarrow> KnowledgeGraph nz)"
  by (simp add: normalizeSerperSearch_def Let_def split: option.splits)

lemma normalizeSerperSearch_RelatedSearches:
  "RelatedSearches (normalizeSerperSearch data nz) =
     (case sliceAt data ''relatedSearches'' of
        Some xs \<Rightarrow> rangeAppend serperRelatedSearch 0 xs (RelatedSearches nz)
      | None \<Rightarrow> RelatedSearches nz)"
  by (simp add: normalizeSerperSearch_def Let_def split: option.splits)

lemma normalizeSerperSearch_PeopleAlsoAsk:
  "PeopleAlsoAsk (normalizeSerperSearch data nz) =
     (case sliceAt data ''peopleAlsoAsk'' of
        Some xs \<Rightarrow> rangeAppend serperPeopleAlsoAsk 0 xs (PeopleAlsoAsk nz)
      | None \<Rightarrow> PeopleAlsoAsk nz)"
  by (simp add: normalizeSerperSearch_def Let_def split: option.splits)

lemma normalizeSerperSearch_SearchMetadata:
  "SearchMetadata (normalizeSerperSearch data nz) =
     (case mapAt data ''searchParameters'' of
        Some sp \<Rightarrow> echoMetadata sp (SearchMetadata nz)
      | None \<Rightarrow> SearchMetadata nz)"
  by (simp add: normalizeSerperSearch_def Let_def split: option.splits)

lemma normalizeSerperSearch_untouched:
  "NewsResults (normalizeSerperSearch data nz) = NewsResults nz"
  "ImageResults (normalizeSerperSearch data nz) = ImageResults nz"
  "VideoResults (normalizeSerperSearch data nz) = VideoResults nz"
  "PlaceResults (normalizeSerperSearch data nz) = PlaceResults nz"
  "ShoppingResults (normalizeSerperSearch data nz) = ShoppingResults nz"
  "ScholarResults (normalizeSerperSearch data nz) = ScholarResults nz"
  "Suggestions (normalizeSerperSearch data nz) = Suggestions nz"
  "RawResult (normalizeSerperSearch data nz) = RawResult nz"
  by (simp_all add: normalizeSerperSearch_def Let_def split: option.splits)

lemma normalizeSerpAPISearch_OrganicResults:
  "OrganicResults (normalizeSerpAPISearch data nz) =
     (case sliceAt data ''organic_results'' of
        Some xs \<Rightarrow> rangeAppend serpAPIOrganicResult 0 xs (OrganicResults nz)
      | None \<Rightarrow> OrganicResults nz)"
  by (simp add: normalizeSerpAPISearch_def Let_def split: option.splits)

lemma normalizeSerpAPISearch_AnswerBox:
  "AnswerBox (normalizeSerpAPISearch data nz) =
     (case mapAt data ''answer_box'' of
        Some m \<Rightarrow> Some (serpAPIAnswerBox m)
      | None \<Rightarrow> AnswerBox nz)"
  by (simp add: normalizeSerpAPISearch_def Let_def split: option.splits)

lemma normalizeSerpAPISearch_KnowledgeGraph:
  "KnowledgeGraph (normalizeSerpAPISearch data nz) =
     (case mapAt data ''knowledge_graph'' of
        Some m \<Rightarrow> Some (serpAPIKnowledgeGraph m)
      | None \<Rightarrow> KnowledgeGraph nz)"
  by (simp add: normalizeSerpAPISearch_def Let_def split: option.splits)

lemma normalizeSerpAPISearch_RelatedSearches:
  "RelatedSearches (normalizeSerpAPISearch data nz) =
     (case sliceAt data ''related_searches'' of
        Some xs \<Rightarrow> rangeAppend serpAPIRelatedSearch 0 xs (RelatedSearches nz)
      | None \<Rightarrow> RelatedSearches nz)"
  by (simp add: normalizeSerpAPISearch_def Let_def split: option.splits)

lemma normalizeSerpAPISearch_PeopleAlsoAsk:
  "PeopleAlsoAsk (normalizeSerpAPISearch data nz) =
     (case sliceAt data ''related_questions'' of
        Some xs \<Rightarrow> rangeAppend serpAPIPeopleAlsoAsk 0 xs (PeopleAlsoAsk nz)
      | None \<Rightarrow> PeopleAlsoAsk nz)"
  by (simp add: normalizeSerpAPISearch_def Let_def split: option.splits)

lemma normalizeSerpAPISearch_SearchMetadata:
  "SearchMetadata (normalizeSerpAPISearch data nz) =
     (case mapAt data ''search_parameters'' of
        Some sp \<Rightarrow> echoMetadata sp (SearchMetadata nz)
      | None \<Rightarrow> SearchMetadata nz)"
  by (simp add: normalizeSerpAPISearch_def Let_def split: option.splits)

lemma normalizeSerpAPISearch_untouched:
  "NewsResults (normalizeSerpAPISearch data nz) = NewsResults nz"
  "ImageResults (normalizeSerpAPISearch data nz) = ImageResults nz"
  "VideoResults (normalizeSerpAPISearch data nz) = VideoResults nz"
  "PlaceResults (normalizeSerpAPISearch data nz) = PlaceResults nz"
  "ShoppingResults (normalizeSerpAPISearch data nz) = ShoppingResults nz"
  "ScholarResults (normalizeSerpAPISearch data nz) = ScholarResults nz"
  "Suggestions (normalizeSerpAPISearch data nz) = Suggestions nz"
  "RawResult (normalizeSerpAPISearch data nz) = RawResult nz"
  by (simp_all add: normalizeSerpAPISearch_def Let_def split: option.splits)

lemma normalizeNews_NewsResults:
  "NewsResults (normalizeSerperNews data nz) =
     (case sliceAt data ''news'' of
        Some xs \<Rightarrow> rangeAppend serperNewsResult 0 xs (NewsResults nz)
      | None \<Rightarrow> NewsResults nz)"
  "NewsResults (normalizeSerpAPINews data nz) =
     (case sliceAt data ''news_results'' of
        Some xs \<Rightarrow> rangeAppend serpAPINewsResult 0 xs (NewsResults nz)
      | None \<Rightarrow> NewsResults nz)"
  by (simp_all add: normalizeSerperNews_def normalizeSerpAPINews_def split: option.splits)

lemma normalizeImages_ImageResults:
  "ImageResults (normalizeSerperImages data nz) =
     (case sliceAt data ''images'' of
        Some xs \<Rightarrow> rangeAppend serperImageResult 0 xs (ImageResults nz)
      | None \<Rightarrow> ImageResults nz)"
  "ImageResults (normalizeSerpAPIImages data nz) =
     (case sliceAt data ''images_results'' of
        Some xs \<Rightarrow> rangeAppend serpAPIImageResult 0 xs (ImageResults nz)
      | None \<Rightarrow> ImageResults nz)"
  by (simp_all add: normalizeSerperImages_def normalizeSerpAPIImages_def split: option.splits)

lemma normalizeNewsImages_RawResult:
  "RawResult (normalizeSerperNews data nz) = RawResult nz"
  "RawResult (normalizeSerpAPINews data nz) = RawResult nz"
  "RawResult (normalizeSerperImages data nz) = RawResult nz"
  "RawResult (normalizeSerpAPIImages data nz) = RawResult nz"
  by (simp_all add: normalizeSerperNews_def normalizeSerpAPINews_def
        normalizeSerperImages_def normalizeSerpAPIImages_def split: option.splits)

section \<open>The entry points on a well-formed input\<close>

lemma Normalize_serper:
  assumes "engineName n = ''serper''" and "Data (st p) = VMap data"
  shows "NormalizeSearch n st (Some p) query
           = (Inr (normalizeSerperSearch data (newNormalized n query p)), st)"
    and "NormalizeNews n st (Some p) query
           = (Inr (normalizeSerperNews data (newNormalized n query p)), st)"
    and "NormalizeImages n st (Some p) query
           = (Inr (normalizeSerperImages data (newNormalized n query p)), st)"
  using assms by (simp_all add: NormalizeSearch_def NormalizeNews_def NormalizeImages_def)

lemma Normalize_serpapi:
  assumes "engineName n = ''serpapi''" and "Data (st p) = VMap data"
  shows "NormalizeSearch n st (Some p) query
           = (Inr (normalizeSerpAPISearch data (newNormalized n query p)), st)"
    and "NormalizeNews n st (Some p) query
           = (Inr (normalizeSerpAPINews data (newNormalized n query p)), st)"
    and "NormalizeImages n st (Some p) query
           = (Inr (normalizeSerpAPIImages data (newNormalized n query p)), st)"
  using assms by (simp_all add: NormalizeSearch_def NormalizeNews_def NormalizeImages_def)

lemma entry_points_cases:
  assumes "f \<in> {NormalizeSearch, NormalizeNews, NormalizeImages}"
  shows "f n st None query = (Inl NilResultOrData, st)"
    and "Data (st p) = VNil \<Longrightarrow> f n st (Some p) query = (Inl NilResultOrData, st)"
    and "Data (st p) \<noteq> VNil \<Longrightarrow> \<not> isMap (Data (st p)) \<Longrightarrow>
           f n st (Some p) query = (Inl (UnexpectedDataType (Data (st p))), st)"
  using assms
  by (auto simp: NormalizeSearch_def NormalizeNews_def NormalizeImages_def isMap_def
           split: any.splits)

section \<open>Rejected inputs\<close>

text \<open>
  C4. Each of \<open>NormalizeSearch\<close>, \<open>NormalizeNews\<close> and \<open>NormalizeImages\<close>, for every
  engine name and query, returns an error and no result when the input pointer is nil,
  when its \<open>Data\<close> is nil, and when its \<open>Data\<close> is anything other than a keyed mapping
  (an array, a string, a number, a boolean). The store is left as it was.
\<close>

theorem malformed_input_is_error:
  assumes "f \<in> {NormalizeSearch, NormalizeNews, NormalizeImages}"
  shows "f n st None query = (Inl NilResultOrData, st)
       \<and> (Data (st p) = VNil \<longrightarrow> f n st (Some p) query = (Inl NilResultOrData, st))
       \<and> (Data (st p) \<noteq> VNil \<and> \<not> isMap (Data (st p)) \<longrightarrow>
            f n st (Some p) query = (Inl (UnexpectedDataType (Data (st p))), st))"
  using entry_points_cases[OF assms] by simp

theorem malformed_input_is_error_witness:
  "NormalizeSearch (NewNormalizer (\<lambda>s. s) ''serper'') (\<lambda>r. \<lparr>Data = VSlice [], Raw = ''[]''\<rparr>) None ''q''
     = (Inl NilResultOrData, \<lambda>r. \<lparr>Data = VSlice [], Raw = ''[]''\<rparr>)
   \<and> NormalizeSearch (NewNormalizer (\<lambda>s. s) ''serper'') (\<lambda>r. \<lparr>Data = VSlice [], Raw = ''[]''\<rparr>) (Some 0) ''q''
     = (Inl (UnexpectedDataType (VSlice [])), \<lambda>r. \<lparr>Data = VSlice [], Raw = ''[]''\<rparr>)
   \<and> NormalizeNews (NewNormalizer (\<lambda>s. s) ''serpapi'') (\<lambda>r. \<lparr>Data = VNil, Raw = ''null''\<rparr>) (Some 0) ''q''
     = (Inl NilResultOrData, \<lambda>r. \<lparr>Data = VNil, Raw = ''null''\<rparr>)"
  using malformed_input_is_error
    [of NormalizeSearch "NewNormalizer (\<lambda>s. s) ''serper''" "\<lambda>r. \<lparr>Data = VSlice [], Raw = ''[]''\<rparr>" "''q''" 0]
    malformed_input_is_error
    [of NormalizeNews "NewNormalizer (\<lambda>s. s) ''serpapi''" "\<lambda>r. \<lparr>Data = VNil, Raw = ''null''\<rparr>" "''q''" 0]
  by (simp add: isMap_def)

text \<open>
  C5. For every engine name whose lower-cased form is neither \<open>serper\<close> nor \<open>serpapi\<close>
  and every input whose \<open>Data\<close> is a keyed mapping, the three entry points return the
  unsupported-engine error, which carries the lower-cased name, and no result.
\<close>

theorem unsupported_engine_is_error:
  assumes "ToLower u name \<noteq> ''serper''" and "ToLower u name \<noteq> ''serpapi''"
    and "Data (st p) = VMap data"
  shows "NormalizeSearch (NewNormalizer u name) st (Some p) query
           = (Inl (UnsupportedEngine (ToLower u name)), st)
       \<and> NormalizeNews (NewNormalizer u name) st (Some p) query
           = (Inl (UnsupportedEngine (ToLower u name)), st)
       \<and> NormalizeImages (NewNormalizer u name) st (Some p) query
           = (Inl (UnsupportedEngine (ToLower u name)), st)"
  using assms
  by (simp add: NormalizeSearch_def NormalizeNews_def NormalizeImages_def NewNormalizer_def)

theorem unsupported_engine_is_error_witness:
  "NormalizeSearch (NewNormalizer (\<lambda>s. s) ''Bing'') (\<lambda>r. \<lparr>Data = VMap Map.empty, Raw = ''{}''\<rparr>) (Some 0) ''q''
     = (Inl (UnsupportedEngine ''bing''), \<lambda>r. \<lparr>Data = VMap Map.empty, Raw = ''{}''\<rparr>)"
proof -
  have B: "char_of (98::nat) = CHR ''b''"
    by code_simp
  have lower: "ToLower (\<lambda>s. s) ''Bing'' = ''bing''"
    by (simp add: ToLower_def toLowerByte_def B)
  show ?thesis
    using unsupported_engine_is_error
      [of "\<lambda>s. s" "''Bing''" "\<lambda>r. \<lparr>Data = VMap Map.empty, Raw = ''{}''\<rparr>" 0 Map.empty "''q''"]
    by (simp add: lower)
qed

section \<open>Field extraction and the metadata echo\<close>





text \<open>
  C10. The echo overwrites all four metadata fields whenever the block is a keyed
  mapping: a key that the block lacks leaves the empty string in its field, so a block
  without \<open>q\<close> replaces the caller's query by the empty string.
\<close>

theorem echo_block_overrides_absent_keys:
  assumes "Data (st p) = VMap data"
    and "engineName n = ''serper'' \<and> data ''searchParameters'' = Some (VMap sp)
       \<or> engineName n = ''serpapi'' \<and> data ''search_parameters'' = Some (VMap sp)"
  shows "\<exists>res. NormalizeSearch n st (Some p) query = (Inr res, st)
       \<and> (sp ''q'' = None \<longrightarrow> Query (SearchMetadata res) = '''')
       \<and> (sp ''location'' = None \<longrightarrow> Location (SearchMetadata res) = '''')
       \<and> (sp ''hl'' = None \<longrightarrow> Language (SearchMetadata res) = '''')
       \<and> (sp ''gl'' = None \<longrightarrow> Country (SearchMetadata res) = '''')"
  using assms
  by (auto simp: Normalize_serper Normalize_serpapi normalizeSerperSearch_SearchMetadata
        normalizeSerpAPISearch_SearchMetadata mapAt_def echoMetadata_def getString_def)

theorem echo_block_overrides_absent_keys_witness:
  "\<exists>res. NormalizeSearch (NewNormalizer (\<lambda>s. s) ''serper'')
        (\<lambda>r. \<lparr>Data = VMap [''searchParameters'' \<mapsto> VMap [''gl'' \<mapsto> VString ''us'']], Raw = ''''\<rparr>)
        (Some 0) ''golang''
      = (Inr res, \<lambda>r. \<lparr>Data = VMap [''searchParameters'' \<mapsto> VMap [''gl'' \<mapsto> VString ''us'']], Raw = ''''\<rparr>)
    \<and> Query (SearchMetadata res) = ''''"
  using echo_block_overrides_absent_keys
    [of "\<lambda>r. \<lparr>Data = VMap [''searchParameters'' \<mapsto> VMap [''gl'' \<mapsto> VString ''us'']], Raw = ''''\<rparr>"
        0 "[''searchParameters'' \<mapsto> VMap [''gl'' \<mapsto> VString ''us'']]"
        "NewNormalizer (\<lambda>s. s) ''serper''" "[''gl'' \<mapsto> VString ''us'']" "''golang''"]
  by (auto simp: NewNormalizer_def ToLower_serper)

section \<open>The back-reference and the input\<close>

text \<open>
  C8. Every entry point leaves the store of \<open>SearchResult\<close> objects exactly as it found
  it, and the \<open>Raw\<close> field of a returned result is the pointer it was given.
\<close>

theorem raw_is_input_and_store_unchanged:
  assumes "f \<in> {NormalizeSearch, NormalizeNews, NormalizeImages}"
  shows "snd (f n st result query) = st
       \<and> (\<forall>res. fst (f n st result query) = Inr res \<longrightarrow> RawResult res = result \<and> result \<noteq> None)"
proof (cases result)
  case None
  then show ?thesis
    using entry_points_cases(1)[OF assms, of n st query] by simp
next
  case (Some p)
  show ?thesis
  proof (cases "Data (st p)")
    case (VMap data)
    have heads: "engineName n \<noteq> ''serper'' \<Longrightarrow> engineName n \<noteq> ''serpapi'' \<Longrightarrow>
        f n st (Some p) query = (Inl (UnsupportedEngine (engineName n)), st)"
      using assms VMap
      by (auto simp: NormalizeSearch_def NormalizeNews_def NormalizeImages_def)
    show ?thesis
      using assms Some Normalize_serper[where st=st and p=p and n=n and query=query, OF _ VMap]
        Normalize_serpapi[where st=st and p=p and n=n and query=query, OF _ VMap] heads
      by (cases "engineName n = ''serper''"; cases "engineName n = ''serpapi''")
         (auto simp: normalizeSerperSearch_untouched normalizeSerpAPISearch_untouched
            normalizeNewsImages_RawResult newNormalized_def)
  next
    case VNil
    then show ?thesis
      using Some entry_points_cases(2)[OF assms, of st p n query] by simp
  qed (use Some entry_points_cases(3)[OF assms, of st p n query] in \<open>simp_all add: isMap_def\<close>)
qed

theorem raw_is_input_and_store_unchanged_witness:
  "snd (NormalizeSearch (NewNormalizer (\<lambda>s. s) ''serper'')
          (\<lambda>r. \<lparr>Data = VMap [''organic'' \<mapsto> VSlice [VMap Map.empty]], Raw = ''''\<rparr>) (Some 5) ''q'')
     = (\<lambda>r. \<lparr>Data = VMap [''organic'' \<mapsto> VSlice [VMap Map.empty]], Raw = ''''\<rparr>)
   \<and> (\<exists>res. fst (NormalizeSearch (NewNormalizer (\<lambda>s. s) ''serper'')
          (\<lambda>r. \<lparr>Data = VMap [''organic'' \<mapsto> VSlice [VMap Map.empty]], Raw = ''''\<rparr>) (Some 5) ''q'')
        = Inr res \<and> RawResult res = Some 5)"
proof -
  let ?st = "\<lambda>r::ref. \<lparr>Data = VMap [''organic'' \<mapsto> VSlice [VMap Map.empty]], Raw = ''''\<rparr>"
  let ?n = "NewNormalizer (\<lambda>s. s) ''serper''"
  have ok: "NormalizeSearch ?n ?st (Some 5) ''q''
      = (Inr (normalizeSerperSearch [''organic'' \<mapsto> VSlice [VMap Map.empty]]
               (newNormalized ?n ''q'' 5)), ?st)"
    by (rule Normalize_serper) (simp_all add: NewNormalizer_def ToLower_serper)
  show ?thesis
    using raw_is_input_and_store_unchanged[of NormalizeSearch ?n ?st "Some 5" "''q''"] ok
    by simp
qed

section \<open>Positions and lengths of the collections\<close>

lemma sliceAt_Some: "data key = Some (VSlice xs) \<Longrightarrow> sliceAt data key = Some xs"
  by (simp add: sliceAt_def)

lemma sourcePositions_increasing: "sorted_wrt (<) (sourcePositions xs)"
  unfolding sourcePositions_def
  by (simp add: sorted_wrt_map sorted_wrt_filter del: upt_Suc)

lemma sourcePositions_range: "set (sourcePositions xs) \<subseteq> {Suc 0..length xs}"
  by (auto simp: sourcePositions_def)

lemma position_fields:
  "org_Position (serperOrganicResult j m) = j + 1"
  "org_Position (serpAPIOrganicResult j m) = j + 1"
  "news_Position (serperNewsResult j m) = j + 1"
  "news_Position (serpAPINewsResult j m) = j + 1"
  "img_Position (serperImageResult j m) = j + 1"
  "img_Position (serpAPIImageResult j m) = j + 1"
  by (simp_all add: serperOrganicResult_def serpAPIOrganicResult_def serperNewsResult_def
        serpAPINewsResult_def serperImageResult_def serpAPIImageResult_def Let_def
        split: option.splits any.splits)

lemma newNormalized_fields:
  "OrganicResults (newNormalized n query p) = []"
  "AnswerBox (newNormalized n query p) = None"
  "KnowledgeGraph (newNormalized n query p) = None"
  "RelatedSearches (newNormalized n query p) = []"
  "PeopleAlsoAsk (newNormalized n query p) = []"
  "NewsResults (newNormalized n query p) = []"
  "ImageResults (newNormalized n query p) = []"
  "RawResult (newNormalized n query p) = Some p"
  by (simp_all add: newNormalized_def)

lemma length_collection:
  "out = [] \<Longrightarrow>
   length (case sliceAt data key of Some xs \<Rightarrow> rangeAppend mk 0 xs out | None \<Rightarrow> out)
     = keyedCount data key"
  by (simp add: keyedCount_def length_rangeAppend split: option.splits)

lemma keyedCount_no_array:
  "(\<forall>xs. data key \<noteq> Some (VSlice xs)) \<Longrightarrow> keyedCount data key = 0"
  by (auto simp: keyedCount_def sliceAt_def split: option.splits any.splits)

lemma keyedCount_array:
  "data key = Some (VSlice xs) \<Longrightarrow> keyedCount data key = length (filter isMap xs)"
  by (simp add: keyedCount_def sliceAt_def)

text \<open>
  C2, as the claim states it, fails: positions are not always \<open>1..N\<close>. A source array
  whose first element is a string and whose second is a keyed mapping gives one organic
  result, and its position is 2.
\<close>

theorem positions_contiguous_counterexample:
  "\<exists>res. NormalizeSearch (NewNormalizer (\<lambda>s. s) ''serper'')
        (\<lambda>r. \<lparr>Data = VMap [''organic'' \<mapsto> VSlice
                 [VString ''ad'', VMap [''title'' \<mapsto> VString ''T'']]], Raw = ''''\<rparr>)
        (Some 0) ''q''
      = (Inr res, \<lambda>r. \<lparr>Data = VMap [''organic'' \<mapsto> VSlice
                 [VString ''ad'', VMap [''title'' \<mapsto> VString ''T'']]], Raw = ''''\<rparr>)
    \<and> map org_Position (OrganicResults res) = [2]
    \<and> map org_Position (OrganicResults res) \<noteq> [1..<Suc (length (OrganicResults res))]"
  by (simp add: NormalizeSearch_def NewNormalizer_def ToLower_serper
        normalizeSerperSearch_OrganicResults sliceAt_def newNormalized_fields
        serperOrganicResult_def)

text \<open>
  C2, amended. In every ranked collection (organic, news and image results, for both
  engines) the position of an output element is the 1-based index that its source element
  has in the source array, whatever position or rank field the element holds; elements
  that are not keyed mappings are skipped and still counted. The positions are therefore
  strictly increasing and lie in \<open>1..length\<close> of the source array, and they are exactly
  \<open>1..N\<close> when every source element is a keyed mapping.
\<close>

theorem positions_are_source_indices:
  assumes "Data (st p) = VMap data"
  shows "(engineName n = ''serper'' \<longrightarrow>
            (data ''organic'' = Some (VSlice xs) \<longrightarrow>
               (\<exists>res. NormalizeSearch n st (Some p) query = (Inr res, st)
                  \<and> map org_Position (OrganicResults res) = sourcePositions xs))
          \<and> (data ''news'' = Some (VSlice xs) \<longrightarrow>
               (\<exists>res. NormalizeNews n st (Some p) query = (Inr res, st)
                  \<and> map news_Position (NewsResults res) = sourcePositions xs))
          \<and> (data ''images'' = Some (VSlice xs) \<longrightarrow>
               (\<exists>res. NormalizeImages n st (Some p) query = (Inr res, st)
                  \<and> map img_Position (ImageResults res) = sourcePositions xs)))
       \<and> (engineName n = ''serpapi'' \<longrightarrow>
            (data ''organic_results'' = Some (VSlice xs) \<longrightarrow>
               (\<exists>res. NormalizeSearch n st (Some p) query = (Inr res, st)
                  \<and> map org_Position (OrganicResults res) = sourcePositions xs))
          \<and> (data ''news_results'' = Some (VSlice xs) \<longrightarrow>
               (\<exists>res. NormalizeNews n st (Some p) query = (Inr res, st)
                  \<and> map news_Position (NewsResults res) = sourcePositions xs))
          \<and> (data ''images_results'' = Some (VSlice xs) \<longrightarrow>
               (\<exists>res. NormalizeImages n st (Some p) query = (Inr res, st)
                  \<and> map img_Position (ImageResults res) = sourcePositions xs)))
       \<and> (list_all isMap xs \<longrightarrow> sourcePositions xs = [1..<Suc (length xs)])
       \<and> sorted_wrt (<) (sourcePositions xs)
       \<and> set (sourcePositions xs) \<subseteq> {1..length xs}"
  using assms
  by (simp add: Normalize_serper Normalize_serpapi
        normalizeSerperSearch_OrganicResults normalizeSerpAPISearch_OrganicResults
        normalizeNews_NewsResults normalizeImages_ImageResults newNormalized_fields
        sliceAt_Some positions_rangeAppend position_fields
        sourcePositions_all_maps sourcePositions_increasing sourcePositions_range
        del: upt_Suc)

theorem positions_are_source_indices_witness:
  "\<exists>res. NormalizeSearch (NewNormalizer (\<lambda>s. s) ''serper'')
        (\<lambda>r. \<lparr>Data = VMap [''organic'' \<mapsto> VSlice
                 [VMap [''title'' \<mapsto> VString ''T1'', ''position'' \<mapsto> VNumber 7],
                  VMap [''title'' \<mapsto> VString ''T2'', ''position'' \<mapsto> VNumber 7]]], Raw = ''''\<rparr>)
        (Some 0) ''q''
      = (Inr res, \<lambda>r. \<lparr>Data = VMap [''organic'' \<mapsto> VSlice
                 [VMap [''title'' \<mapsto> VString ''T1'', ''position'' \<mapsto> VNumber 7],
                  VMap [''title'' \<mapsto> VString ''T2'', ''position'' \<mapsto> VNumber 7]]], Raw = ''''\<rparr>)
    \<and> map org_Position (OrganicResults res) = [1, 2]"
proof -
  let ?xs = "[VMap [''title'' \<mapsto> VString ''T1'', ''position'' \<mapsto> VNumber 7],
              VMap [''title'' \<mapsto> VString ''T2'', ''position'' \<mapsto> VNumber 7]]"
  have pos: "sourcePositions ?xs = [1, 2]"
    by (simp add: sourcePositions_def isMap_def)
  show ?thesis
    using positions_are_source_indices
      [of "\<lambda>r. \<lparr>Data = VMap [''organic'' \<mapsto> VSlice ?xs], Raw = ''''\<rparr>" 0
          "[''organic'' \<mapsto> VSlice ?xs]" "NewNormalizer (\<lambda>s. s) ''serper''" ?xs "''q''"]
    by (simp add: NewNormalizer_def ToLower_serper pos)
qed

text \<open>
  C3, as the claim states it, fails: a source array with one element that is not a keyed
  mapping gives an empty collection, not a collection of length one.
\<close>

theorem collection_length_counterexample:
  "\<exists>res. NormalizeSearch (NewNormalizer (\<lambda>s. s) ''serper'')
        (\<lambda>r. \<lparr>Data = VMap [''organic'' \<mapsto> VSlice [VString ''ad'']], Raw = ''''\<rparr>)
        (Some 0) ''q''
      = (Inr res, \<lambda>r. \<lparr>Data = VMap [''organic'' \<mapsto> VSlice [VString ''ad'']], Raw = ''''\<rparr>)
    \<and> length (OrganicResults res) = 0
    \<and> length (OrganicResults res) \<noteq> length [VString ''ad'']"
  by (simp add: NormalizeSearch_def NewNormalizer_def ToLower_serper
        normalizeSerperSearch_OrganicResults sliceAt_def newNormalized_fields)

text \<open>
  C3, amended. For each collection (organic results, related searches, people-also-ask,
  news results, image results) of either engine, a normalisation of a keyed-mapping root
  succeeds and the length of the collection is the number of keyed mappings in the array
  under the provider's key: zero when the key is absent or holds no array, and the
  length of the array when all of its elements are keyed mappings.
\<close>

theorem collection_lengths_count_keyed_elements:
  assumes "Data (st p) = VMap data"
  shows "(engineName n = ''serper'' \<longrightarrow>
            (\<exists>res. NormalizeSearch n st (Some p) query = (Inr res, st)
               \<and> length (OrganicResults res) = keyedCount data ''organic''
               \<and> length (RelatedSearches res) = keyedCount data ''relatedSearches''
               \<and> length (PeopleAlsoAsk res) = keyedCount data ''peopleAlsoAsk'')
          \<and> (\<exists>res. NormalizeNews n st (Some p) query = (Inr res, st)
               \<and> length (NewsResults res) = keyedCount data ''news'')
          \<and> (\<exists>res. NormalizeImages n st (Some p) query = (Inr res, st)
               \<and> length (ImageResults res) = keyedCount data ''images''))
       \<and> (engineName n = ''serpapi'' \<longrightarrow>
            (\<exists>res. NormalizeSearch n st (Some p) query = (Inr res, st)
               \<and> length (OrganicResults res) = keyedCount data ''organic_results''
               \<and> length (RelatedSearches res) = keyedCount data ''related_searches''
               \<and> length (PeopleAlsoAsk res) = keyedCount data ''related_questions'')
          \<and> (\<exists>res. NormalizeNews n st (Some p) query = (Inr res, st)
               \<and> length (NewsResults res) = keyedCount data ''news_results'')
          \<and> (\<exists>res. NormalizeImages n st (Some p) query = (Inr res, st)
               \<and> length (ImageResults res) = keyedCount data ''images_results''))
       \<and> (\<forall>key. (\<forall>xs. data key \<noteq> Some (VSlice xs)) \<longrightarrow> keyedCount data key = 0)
       \<and> (\<forall>key xs. data key = Some (VSlice xs) \<longrightarrow>
             keyedCount data key = length (filter isMap xs)
           \<and> (list_all isMap xs \<longrightarrow> keyedCount data key = length xs))"
proof -
  have absent: "\<forall>key. (\<forall>xs. data key \<noteq> Some (VSlice xs)) \<longrightarrow> keyedCount data key = 0"
    by (simp add: keyedCount_no_array)
  have present: "\<forall>key xs. data key = Some (VSlice xs) \<longrightarrow>
             keyedCount data key = length (filter isMap xs)
           \<and> (list_all isMap xs \<longrightarrow> keyedCount data key = length xs)"
    by (auto simp: keyedCount_array list_all_iff)
  have serper: "engineName n = ''serper'' \<longrightarrow>
            (\<exists>res. NormalizeSearch n st (Some p) query = (Inr res, st)
               \<and> length (OrganicResults res) = keyedCount data ''organic''
               \<and> length (RelatedSearches res) = keyedCount data ''relatedSearches''
               \<and> length (PeopleAlsoAsk res) = keyedCount data ''peopleAlsoAsk'')
          \<and> (\<exists>res. NormalizeNews n st (Some p) query = (Inr res, st)
               \<and> length (NewsResults res) = keyedCount data ''news'')
          \<and> (\<exists>res. NormalizeImages n st (Some p) query = (Inr res, st)
               \<and> length (ImageResults res) = keyedCount data ''images'')"
    using assms
    by (simp add: Normalize_serper normalizeSerperSearch_OrganicResults
          normalizeSerperSearch_RelatedSearches normalizeSerperSearch_PeopleAlsoAsk
          normalizeNews_NewsResults normalizeImages_ImageResults newNormalized_fields
          length_collection)
  have serpapi: "engineName n = ''serpapi'' \<longrightarrow>
            (\<exists>res. NormalizeSearch n st (Some p) query = (Inr res, st)
               \<and> length (OrganicResults res) = keyedCount data ''organic_results''
               \<and> length (RelatedSearches res) = keyedCount data ''related_searches''
               \<and> length (PeopleAlsoAsk res) = keyedCount data ''related_questions'')
          \<and> (\<exists>res. NormalizeNews n st (Some p) query = (Inr res, st)
               \<and> length (NewsResults res) = keyedCount data ''news_results'')
          \<and> (\<exists>res. NormalizeImages n st (Some p) query = (Inr res, st)
               \<and> length (ImageResults res) = keyedCount data ''images_results'')"
    using assms
    by (simp add: Normalize_serpapi normalizeSerpAPISearch_OrganicResults
          normalizeSerpAPISearch_RelatedSearches normalizeSerpAPISearch_PeopleAlsoAsk
          normalizeNews_NewsResults normalizeImages_ImageResults newNormalized_fields
          length_collection)
  from serper serpapi absent present show ?thesis
    by (intro conjI)
qed

theorem collection_lengths_count_keyed_elements_witness:
  "\<exists>res. NormalizeSearch (NewNormalizer (\<lambda>s. s) ''serper'')
        (\<lambda>r. \<lparr>Data = VMap [''organic'' \<mapsto> VSlice [VMap Map.empty, VMap Map.empty],
                            ''relatedSearches'' \<mapsto> VString ''not-an-array''], Raw = ''''\<rparr>)
        (Some 0) ''q''
      = (Inr res, \<lambda>r. \<lparr>Data = VMap [''organic'' \<mapsto> VSlice [VMap Map.empty, VMap Map.empty],
                            ''relatedSearches'' \<mapsto> VString ''not-an-array''], Raw = ''''\<rparr>)
    \<and> length (OrganicResults res) = 2
    \<and> length (RelatedSearches res) = 0
    \<and> length (PeopleAlsoAsk res) = 0"
proof -
  let ?data = "[''organic'' \<mapsto> VSlice [VMap Map.empty, VMap Map.empty],
                ''relatedSearches'' \<mapsto> VString ''not-an-array'']"
  have counts: "keyedCount ?data ''organic'' = 2" "keyedCount ?data ''relatedSearches'' = 0"
       "keyedCount ?data ''peopleAlsoAsk'' = 0"
    by (simp_all add: keyedCount_def sliceAt_def isMap_def)
  show ?thesis
    using collection_lengths_count_keyed_elements
      [of "\<lambda>r. \<lparr>Data = VMap ?data, Raw = ''''\<rparr>" 0 ?data "NewNormalizer (\<lambda>s. s) ''serper''" "''q''"]
    by (simp add: NewNormalizer_def ToLower_serper counts)
qed

section \<open>The two provider tables compared\<close>

lemma toSerpAPIKeys_sliceAt:
  "sliceAt (toSerpAPIKeys d) ''organic_results'' = sliceAt d ''organic''"
  "sliceAt (toSerpAPIKeys d) ''related_searches'' = sliceAt d ''relatedSearches''"
  "sliceAt (toSerpAPIKeys d) ''related_questions'' = sliceAt d ''peopleAlsoAsk''"
  by (simp_all add: sliceAt_def toSerpAPIKeys_def)

lemma toSerpAPIKeys_mapAt:
  "mapAt (toSerpAPIKeys d) ''answer_box'' = mapAt d ''answerBox''"
  "mapAt (toSerpAPIKeys d) ''search_parameters'' = mapAt d ''searchParameters''"
  by (simp_all add: mapAt_def toSerpAPIKeys_def)

lemma toSerpAPIKeys_kg_lookup:
  "toSerpAPIKeys d ''knowledge_graph'' = map_option renameImageKey (d ''knowledgeGraph'')"
  by (simp add: toSerpAPIKeys_def)

lemma serpAPIKnowledgeGraph_renamed:
  "serpAPIKnowledgeGraph
     (\<lambda>k. if k = ''image'' then kg ''imageUrl'' else if k = ''imageUrl'' then None else kg k)
   = serperKnowledgeGraph kg"
  by (simp add: serpAPIKnowledgeGraph_def serperKnowledgeGraph_def getString_def)

lemma toSerpAPIKeys_knowledgeGraph:
  "(case mapAt (toSerpAPIKeys d) ''knowledge_graph'' of
      Some m \<Rightarrow> Some (serpAPIKnowledgeGraph m) | None \<Rightarrow> None)
   = (case mapAt d ''knowledgeGraph'' of
      Some m \<Rightarrow> Some (serperKnowledgeGraph m) | None \<Rightarrow> None)"
proof (cases "d ''knowledgeGraph''")
  case None
  then show ?thesis
    by (simp add: mapAt_def toSerpAPIKeys_kg_lookup)
next
  case (Some v)
  then show ?thesis
    by (cases v)
       (simp_all add: mapAt_def toSerpAPIKeys_kg_lookup renameImageKey_def
          serpAPIKnowledgeGraph_renamed)
qed

lemma organic_builders_agree: "serperOrganicResult = serpAPIOrganicResult"
  by (intro ext) (simp add: serperOrganicResult_def serpAPIOrganicResult_def)

lemma related_builders:
  "rangeAppend serperRelatedSearch 0 xs []
     = map (\<lambda>r. r\<lparr>rs_Link := ''''\<rparr>) (rangeAppend serpAPIRelatedSearch 0 xs [])"
  by (simp add: rangeAppend_keyedElements serperRelatedSearch_def serpAPIRelatedSearch_def
        split_def)

lemma paa_builders:
  "rangeAppend serperPeopleAlsoAsk 0 xs []
     = map (\<lambda>r. r\<lparr>paa_Source := ''''\<rparr>) (rangeAppend serpAPIPeopleAlsoAsk 0 xs [])"
  by (simp add: rangeAppend_keyedElements serperPeopleAlsoAsk_def serpAPIPeopleAlsoAsk_def
        split_def)

lemma answerBox_builders:
  "serpAPIAnswerBox m = (serperAnswerBox m)\<lparr>ab_Source := ''''\<rparr>"
  by (simp add: serpAPIAnswerBox_def serperAnswerBox_def)

text \<open>
  C1, as the claim states it, fails. The two documents below hold the same answer box,
  one under \<open>answerBox\<close> and one under \<open>answer_box\<close>; the Serper table copies the
  box's \<open>source\<close> into the result and the SerpAPI table does not read it, so the two
  results differ in \<open>AnswerBox.Source\<close>.
\<close>

theorem providers_differ_counterexample:
  "toSerpAPIKeys [''answerBox'' \<mapsto> VMap [''source'' \<mapsto> VString ''S'']]
     = [''answer_box'' \<mapsto> VMap [''source'' \<mapsto> VString ''S'']]
   \<and> (\<exists>r1 r2.
      NormalizeSearch (NewNormalizer (\<lambda>s. s) ''serper'')
        (\<lambda>r. if r = 0
              then \<lparr>Data = VMap [''answerBox'' \<mapsto> VMap [''source'' \<mapsto> VString ''S'']], Raw = ''''\<rparr>
              else \<lparr>Data = VMap [''answer_box'' \<mapsto> VMap [''source'' \<mapsto> VString ''S'']], Raw = ''''\<rparr>)
        (Some 0) ''q''
      = (Inr r1,
         \<lambda>r. if r = 0
              then \<lparr>Data = VMap [''answerBox'' \<mapsto> VMap [''source'' \<mapsto> VString ''S'']], Raw = ''''\<rparr>
              else \<lparr>Data = VMap [''answer_box'' \<mapsto> VMap [''source'' \<mapsto> VString ''S'']], Raw = ''''\<rparr>)
    \<and> NormalizeSearch (NewNormalizer (\<lambda>s. s) ''serpapi'')
        (\<lambda>r. if r = 0
              then \<lparr>Data = VMap [''answerBox'' \<mapsto> VMap [''source'' \<mapsto> VString ''S'']], Raw = ''''\<rparr>
              else \<lparr>Data = VMap [''answer_box'' \<mapsto> VMap [''source'' \<mapsto> VString ''S'']], Raw = ''''\<rparr>)
        (Some 1) ''q''
      = (Inr r2,
         \<lambda>r. if r = 0
              then \<lparr>Data = VMap [''answerBox'' \<mapsto> VMap [''source'' \<mapsto> VString ''S'']], Raw = ''''\<rparr>
              else \<lparr>Data = VMap [''answer_box'' \<mapsto> VMap [''source'' \<mapsto> VString ''S'']], Raw = ''''\<rparr>)
    \<and> map_option ab_Source (AnswerBox r1) = Some ''S''
    \<and> map_option ab_Source (AnswerBox r2) = Some ''''
    \<and> AnswerBox r1 \<noteq> AnswerBox r2)"
proof -
  let ?a = "[''answerBox'' \<mapsto> VMap [''source'' \<mapsto> VString ''S'']]"
  let ?b = "[''answer_box'' \<mapsto> VMap [''source'' \<mapsto> VString ''S'']]"
  let ?st = "\<lambda>r::ref. if r = 0 then \<lparr>Data = VMap ?a, Raw = ''''\<rparr>
                          else \<lparr>Data = VMap ?b, Raw = ''''\<rparr>"
  let ?r1 = "normalizeSerperSearch ?a (newNormalized (NewNormalizer (\<lambda>s. s) ''serper'') ''q'' 0)"
  let ?r2 = "normalizeSerpAPISearch ?b (newNormalized (NewNormalizer (\<lambda>s. s) ''serpapi'') ''q'' 1)"
  have keys: "toSerpAPIKeys ?a = ?b"
    by (rule ext) (simp add: toSerpAPIKeys_def)
  have run1: "NormalizeSearch (NewNormalizer (\<lambda>s. s) ''serper'') ?st (Some 0) ''q'' = (Inr ?r1, ?st)"
    by (rule Normalize_serper(1)) (simp_all add: NewNormalizer_def ToLower_serper)
  have run2: "NormalizeSearch (NewNormalizer (\<lambda>s. s) ''serpapi'') ?st (Some 1) ''q'' = (Inr ?r2, ?st)"
    by (rule Normalize_serpapi(1)) (simp_all add: NewNormalizer_def ToLower_serpapi)
  have box1: "AnswerBox ?r1 = Some (serperAnswerBox [''source'' \<mapsto> VString ''S''])"
    by (simp add: normalizeSerperSearch_AnswerBox mapAt_def)
  have box2: "AnswerBox ?r2 = Some (serpAPIAnswerBox [''source'' \<mapsto> VString ''S''])"
    by (simp add: normalizeSerpAPISearch_AnswerBox mapAt_def)
  have src1: "map_option ab_Source (AnswerBox ?r1) = Some ''S''"
    using box1 by (simp add: serperAnswerBox_def getString_def)
  have src2: "map_option ab_Source (AnswerBox ?r2) = Some ''''"
    using box2 by (simp add: serpAPIAnswerBox_def)
  have diff: "AnswerBox ?r1 \<noteq> AnswerBox ?r2"
    using src1 src2 by auto
  show ?thesis
    using keys run1 run2 src1 src2 diff by (intro conjI exI)
qed

text \<open>
  C1, amended. For every Serper document and the document holding the same content under
  SerpAPI's keys, \<open>NormalizeSearch\<close> succeeds for both engines and the two results are
  equal in every field except: \<open>SearchMetadata.Engine\<close>; \<open>Raw\<close>, which points each
  result back to its own input; \<open>AnswerBox.Source\<close>, which only the Serper table fills;
  and \<open>RelatedSearch.Link\<close> and \<open>PeopleAlsoAsk.Source\<close>, which only the SerpAPI table
  fills (the latter from \<open>displayed_link\<close>).
\<close>

theorem providers_agree_on_shared_fields:
  assumes "engineName n1 = ''serper''" and "engineName n2 = ''serpapi''"
    and "Data (st p1) = VMap d" and "Data (st p2) = VMap (toSerpAPIKeys d)"
  shows "\<exists>r1 r2.
           NormalizeSearch n1 st (Some p1) query = (Inr r1, st)
         \<and> NormalizeSearch n2 st (Some p2) query = (Inr r2, st)
         \<and> OrganicResults r1 = OrganicResults r2
         \<and> map_option (\<lambda>a. a\<lparr>ab_Source := ''''\<rparr>) (AnswerBox r1) = AnswerBox r2
         \<and> KnowledgeGraph r1 = KnowledgeGraph r2
         \<and> RelatedSearches r1 = map (\<lambda>r. r\<lparr>rs_Link := ''''\<rparr>) (RelatedSearches r2)
         \<and> PeopleAlsoAsk r1 = map (\<lambda>r. r\<lparr>paa_Source := ''''\<rparr>) (PeopleAlsoAsk r2)
         \<and> NewsResults r1 = NewsResults r2
         \<and> ImageResults r1 = ImageResults r2
         \<and> VideoResults r1 = VideoResults r2
         \<and> PlaceResults r1 = PlaceResults r2
         \<and> ShoppingResults r1 = ShoppingResults r2
         \<and> ScholarResults r1 = ScholarResults r2
         \<and> Suggestions r1 = Suggestions r2
         \<and> SearchMetadata r1 = (SearchMetadata r2)\<lparr>Engine := ''serper''\<rparr>
         \<and> Engine (SearchMetadata r2) = ''serpapi''
         \<and> RawResult r1 = Some p1 \<and> RawResult r2 = Some p2"
proof -
  let ?r1 = "normalizeSerperSearch d (newNormalized n1 query p1)"
  let ?r2 = "normalizeSerpAPISearch (toSerpAPIKeys d) (newNormalized n2 query p2)"
  have run1: "NormalizeSearch n1 st (Some p1) query = (Inr ?r1, st)"
    using assms(1,3) by (rule Normalize_serper(1))
  have run2: "NormalizeSearch n2 st (Some p2) query = (Inr ?r2, st)"
    using assms(2,4) by (rule Normalize_serpapi(1))
  have organic: "OrganicResults ?r1 = OrganicResults ?r2"
    by (simp add: normalizeSerperSearch_OrganicResults normalizeSerpAPISearch_OrganicResults
          toSerpAPIKeys_sliceAt organic_builders_agree newNormalized_fields split: option.splits)
  have answer: "map_option (\<lambda>a. a\<lparr>ab_Source := ''''\<rparr>) (AnswerBox ?r1) = AnswerBox ?r2"
    by (simp add: normalizeSerperSearch_AnswerBox normalizeSerpAPISearch_AnswerBox
          toSerpAPIKeys_mapAt answerBox_builders newNormalized_fields split: option.splits)
  have kg: "KnowledgeGraph ?r1 = KnowledgeGraph ?r2"
    using toSerpAPIKeys_knowledgeGraph[of d]
    by (simp add: normalizeSerperSearch_KnowledgeGraph normalizeSerpAPISearch_KnowledgeGraph
          newNormalized_fields split: option.splits)
  have related: "RelatedSearches ?r1 = map (\<lambda>r. r\<lparr>rs_Link := ''''\<rparr>) (RelatedSearches ?r2)"
    by (simp add: normalizeSerperSearch_RelatedSearches normalizeSerpAPISearch_RelatedSearches
          toSerpAPIKeys_sliceAt related_builders newNormalized_fields split: option.splits)
  have paa: "PeopleAlsoAsk ?r1 = map (\<lambda>r. r\<lparr>paa_Source := ''''\<rparr>) (PeopleAlsoAsk ?r2)"
    by (simp add: normalizeSerperSearch_PeopleAlsoAsk normalizeSerpAPISearch_PeopleAlsoAsk
          toSerpAPIKeys_sliceAt paa_builders newNormalized_fields split: option.splits)
  have rest: "NewsResults ?r1 = NewsResults ?r2" "ImageResults ?r1 = ImageResults ?r2"
      "VideoResults ?r1 = VideoResults ?r2" "PlaceResults ?r1 = PlaceResults ?r2"
      "ShoppingResults ?r1 = ShoppingResults ?r2" "ScholarResults ?r1 = ScholarResults ?r2"
      "Suggestions ?r1 = Suggestions ?r2"
      "RawResult ?r1 = Some p1" "RawResult ?r2 = Some p2"
    by (simp_all add: normalizeSerperSearch_untouched normalizeSerpAPISearch_untouched
          newNormalized_def)
  have meta: "SearchMetadata ?r1 = (SearchMetadata ?r2)\<lparr>Engine := ''serper''\<rparr>"
      "Engine (SearchMetadata ?r2) = ''serpapi''"
    using assms(1,2)
    by (simp_all add: normalizeSerperSearch_SearchMetadata normalizeSerpAPISearch_SearchMetadata
          toSerpAPIKeys_mapAt echoMetadata_def newNormalized_def split: option.splits)
  show ?thesis
    using run1 run2 organic answer kg related paa rest meta by blast
qed

theorem providers_agree_on_shared_fields_witness:
  "\<exists>r1 r2.
      NormalizeSearch (NewNormalizer (\<lambda>s. s) ''serper'')
        (\<lambda>r. if r = 0
              then \<lparr>Data = VMap [''organic'' \<mapsto> VSlice [VMap [''title'' \<mapsto> VString ''Test Result'',
                       ''link'' \<mapsto> VString ''https://example.com'']]], Raw = ''''\<rparr>
              else \<lparr>Data = VMap (toSerpAPIKeys [''organic'' \<mapsto> VSlice [VMap [''title'' \<mapsto> VString ''Test Result'',
                       ''link'' \<mapsto> VString ''https://example.com'']]]), Raw = ''''\<rparr>)
        (Some 0) ''test''
      = (Inr r1,
         \<lambda>r. if r = 0
              then \<lparr>Data = VMap [''organic'' \<mapsto> VSlice [VMap [''title'' \<mapsto> VString ''Test Result'',
                       ''link'' \<mapsto> VString ''https://example.com'']]], Raw = ''''\<rparr>
              else \<lparr>Data = VMap (toSerpAPIKeys [''organic'' \<mapsto> VSlice [VMap [''title'' \<mapsto> VString ''Test Result'',
                       ''link'' \<mapsto> VString ''https://example.com'']]]), Raw = ''''\<rparr>)
    \<and> NormalizeSearch (NewNormalizer (\<lambda>s. s) ''serpapi'')
        (\<lambda>r. if r = 0
              then \<lparr>Data = VMap [''organic'' \<mapsto> VSlice [VMap [''title'' \<mapsto> VString ''Test Result'',
                       ''link'' \<mapsto> VString ''https://example.com'']]], Raw = ''''\<rparr>
              else \<lparr>Data = VMap (toSerpAPIKeys [''organic'' \<mapsto> VSlice [VMap [''title'' \<mapsto> VString ''Test Result'',
                       ''link'' \<mapsto> VString ''https://example.com'']]]), Raw = ''''\<rparr>)
        (Some 1) ''test''
      = (Inr r2,
         \<lambda>r. if r = 0
              then \<lparr>Data = VMap [''organic'' \<mapsto> VSlice [VMap [''title'' \<mapsto> VString ''Test Result'',
                       ''link'' \<mapsto> VString ''https://example.com'']]], Raw = ''''\<rparr>
              else \<lparr>Data = VMap (toSerpAPIKeys [''organic'' \<mapsto> VSlice [VMap [''title'' \<mapsto> VString ''Test Result'',
                       ''link'' \<mapsto> VString ''https://example.com'']]]), Raw = ''''\<rparr>)
    \<and> OrganicResults r1 = OrganicResults r2
    \<and> SearchMetadata r1 = (SearchMetadata r2)\<lparr>Engine := ''serper''\<rparr>"
proof -
  let ?d = "[''organic'' \<mapsto> VSlice [VMap [''title'' \<mapsto> VString ''Test Result'',
                       ''link'' \<mapsto> VString ''https://example.com'']]]"
  let ?st = "\<lambda>r::ref. if r = 0 then \<lparr>Data = VMap ?d, Raw = ''''\<rparr>
                          else \<lparr>Data = VMap (toSerpAPIKeys ?d), Raw = ''''\<rparr>"
  have h1: "engineName (NewNormalizer (\<lambda>s. s) ''serper'') = ''serper''"
    by (simp add: NewNormalizer_def ToLower_serper)
  have h2: "engineName (NewNormalizer (\<lambda>s. s) ''serpapi'') = ''serpapi''"
    by (simp add: NewNormalizer_def ToLower_serpapi)
  have h3: "Data (?st 0) = VMap ?d"
    by simp
  have h4: "Data (?st 1) = VMap (toSerpAPIKeys ?d)"
    by simp
  from providers_agree_on_shared_fields[OF h1 h2 h3 h4, of "''test''"]
  obtain r1 r2 where
      "NormalizeSearch (NewNormalizer (\<lambda>s. s) ''serper'') ?st (Some 0) ''test'' = (Inr r1, ?st)"
      "NormalizeSearch (NewNormalizer (\<lambda>s. s) ''serpapi'') ?st (Some 1) ''test'' = (Inr r2, ?st)"
      "OrganicResults r1 = OrganicResults r2"
      "SearchMetadata r1 = (SearchMetadata r2)\<lparr>Engine := ''serper''\<rparr>"
    by (elim exE conjE)
  then show ?thesis
    by (intro exI conjI)
qed

section \<open>The registry's lookup and enumeration\<close>

lemma registerSeq_engines:
  "engines r = Some m \<Longrightarrow>
   \<exists>r'. registerSeq r es = Some r'
      \<and> engines r' = Some (foldl (\<lambda>m e. m(GetName e \<mapsto> e)) m es)"
proof (induction es arbitrary: r m)
  case Nil
  then show ?case by simp
next
  case (Cons e es)
  have "engines (r\<lparr>engines := Some (m(GetName e \<mapsto> e))\<rparr>) = Some (m(GetName e \<mapsto> e))"
    by simp
  from Cons.IH[OF this] Cons.prems show ?case
    by (simp add: Register_def)
qed

lemma foldl_register_lookup:
  "foldl (\<lambda>m e. m(GetName e \<mapsto> e)) Map.empty es name = lastRegistered es name"
proof (induction es rule: rev_induct)
  case Nil
  show ?case by (simp add: lastRegistered_def)
next
  case (snoc e es)
  then show ?case
    by (simp add: lastRegistered_def)
qed

lemma foldl_register_dom:
  "dom (foldl (\<lambda>m e. m(GetName e \<mapsto> e)) m es) = dom m \<union> GetName ` set es"
  by (induction es arbitrary: m) auto

text \<open>
  C9, as the claim states it, fails: \<open>List\<close> does not preserve insertion order. After
  registering \<open>serper\<close> and then \<open>serpapi\<close>, the list with \<open>serpapi\<close> first is one of
  the values \<open>List\<close> may return.
\<close>

theorem registry_list_order_counterexample:
  "\<exists>r. registerSeq NewRegistry
          [\<lparr>GetName = ''serper'', GetVersion = ''1.0.0'', GetSupportedTools = []\<rparr>,
           \<lparr>GetName = ''serpapi'', GetVersion = ''1.0.0'', GetSupportedTools = []\<rparr>] = Some r
      \<and> ListReturns r [''serpapi'', ''serper'']
      \<and> [''serpapi'', ''serper''] \<noteq> [''serper'', ''serpapi'']"
  by (auto simp: Register_def NewRegistry_def ListReturns_def GetAll_def)

text \<open>
  C9, amended. The registry is a name-keyed collection. A sequence of \<open>Register\<close> calls on
  a new registry never panics; afterwards \<open>Get\<close> returns the engine most recently
  registered under exactly that name and reports absence for every other name, and
  \<open>List\<close> returns every registered name exactly once, in an order that is not specified.
\<close>

theorem registry_get_and_list:
  "\<exists>r. registerSeq NewRegistry es = Some r
      \<and> (\<forall>name. Get r name = lastRegistered es name)
      \<and> (\<forall>names. ListReturns r names \<longleftrightarrow> distinct names \<and> set names = GetName ` set es)
      \<and> (\<exists>names. ListReturns r names)"
proof -
  let ?m = "foldl (\<lambda>m e. m(GetName e \<mapsto> e)) Map.empty es"
  have "engines NewRegistry = Some Map.empty"
    by (simp add: NewRegistry_def)
  from registerSeq_engines[OF this, of es]
  obtain r where run: "registerSeq NewRegistry es = Some r" and eng: "engines r = Some ?m"
    by (elim exE conjE)
  have get: "\<forall>name. Get r name = lastRegistered es name"
    by (simp add: Get_def eng foldl_register_lookup)
  have dom: "dom (GetAll r) = GetName ` set es"
    by (simp add: GetAll_def eng foldl_register_dom)
  have list: "\<forall>names. ListReturns r names \<longleftrightarrow> distinct names \<and> set names = GetName ` set es"
    by (simp add: ListReturns_def dom)
  have fin: "finite (GetName ` set es)"
    by simp
  obtain names where "set names = GetName ` set es" and "distinct names"
    using finite_distinct_list[OF fin] by (elim exE conjE)
  then have "ListReturns r names"
    by (simp add: list)
  then have some: "\<exists>names. ListReturns r names" ..
  show ?thesis
    using run get list some by (intro exI[of _ r] conjI)
qed

theorem registry_get_and_list_witness:
  "\<exists>r. registerSeq NewRegistry
          [\<lparr>GetName = ''serper'', GetVersion = ''1.0.0'', GetSupportedTools = []\<rparr>,
           \<lparr>GetName = ''serpapi'', GetVersion = ''1.0.0'', GetSupportedTools = []\<rparr>,
           \<lparr>GetName = ''serper'', GetVersion = ''2.0.0'', GetSupportedTools = []\<rparr>] = Some r
      \<and> Get r ''serper'' = Some \<lparr>GetName = ''serper'', GetVersion = ''2.0.0'', GetSupportedTools = []\<rparr>
      \<and> Get r ''bing'' = None
      \<and> ListReturns r [''serper'', ''serpapi'']
      \<and> ListReturns r [''serpapi'', ''serper'']
      \<and> \<not> ListReturns r [''serper'']"
proof -
  let ?es = "[\<lparr>GetName = ''serper'', GetVersion = ''1.0.0'', GetSupportedTools = []\<rparr>,
           \<lparr>GetName = ''serpapi'', GetVersion = ''1.0.0'', GetSupportedTools = []\<rparr>,
           \<lparr>GetName = ''serper'', GetVersion = ''2.0.0'', GetSupportedTools = []\<rparr>]"
  from registry_get_and_list[of ?es] obtain r where
      run: "registerSeq NewRegistry ?es = Some r"
      and get: "\<forall>name. Get r name = lastRegistered ?es name"
      and list: "\<forall>names. ListReturns r names \<longleftrightarrow> distinct names \<and> set names = GetName ` set ?es"
    by (elim exE conjE)
  have "Get r ''serper'' = Some \<lparr>GetName = ''serper'', GetVersion = ''2.0.0'', GetSupportedTools = []\<rparr>"
    by (simp add: get lastRegistered_def)
  moreover have "Get r ''bing'' = None"
    by (simp add: get lastRegistered_def)
  moreover have "ListReturns r [''serper'', ''serpapi'']" "ListReturns r [''serpapi'', ''serper'']"
      "\<not> ListReturns r [''serper'']"
    by (auto simp: list)
  ultimately show ?thesis
    using run by (intro exI[of _ r] conjI)
qed

end
